theory Spec2Isabelle
  imports Complex_Main
begin

section \<open>Data model\<close>

text \<open>
  The banking assistant is a Python program.  Its strings are modelled as \<open>string\<close>,
  one \<open>char\<close> standing for one code point below 256.  A metadata dictionary is an
  association list (Python dictionaries keep insertion order and have no duplicate
  keys); its values are strings or integers.  A raised exception is a value
  \<open>Exception msg\<close>, where \<open>msg\<close> is what \<open>str(e)\<close> gives.
\<close>

datatype pyval = PyStr string | PyInt int

type_synonym metadata = "(string \<times> pyval) list"

record document =
  page_content :: string
  metadata :: metadata

datatype error = Exception string

fun str_of_error :: "error \<Rightarrow> string" where
  "str_of_error (Exception msg) = msg"

subsection \<open>Python string primitives\<close>

definition py_isspace :: "char \<Rightarrow> bool" where
  \<comment> \<open>the code points below 256 for which \<open>str.isspace\<close> holds\<close>
  "py_isspace c = (c \<in> set [CHR 0x09, CHR 0x0A, CHR 0x0B, CHR 0x0C, CHR 0x0D,
     CHR 0x1C, CHR 0x1D, CHR 0x1E, CHR 0x1F, CHR 0x20, CHR 0x85, CHR 0xA0])"

definition strip :: "string \<Rightarrow> string" where
  \<comment> \<open>\<open>s.strip()\<close>\<close>
  "strip s = rev (dropWhile py_isspace (rev (dropWhile py_isspace s)))"

definition py_lower :: "char \<Rightarrow> char" where
  "py_lower c =
     (let n = (of_char c :: nat)
      in if (65 \<le> n \<and> n \<le> 90) \<or> (192 \<le> n \<and> n \<le> 222 \<and> n \<noteq> 215)
         then char_of (n + 32) else c)"

definition lower :: "string \<Rightarrow> string" where
  \<comment> \<open>\<open>s.lower()\<close>\<close>
  "lower s = map py_lower s"

fun startswith :: "string \<Rightarrow> string \<Rightarrow> bool" where
  "startswith s [] = True"
| "startswith [] (k # ks) = False"
| "startswith (c # cs) (k # ks) = (c = k \<and> startswith cs ks)"

fun contains :: "string \<Rightarrow> string \<Rightarrow> bool" where
  \<comment> \<open>\<open>k in s\<close> for strings: \<open>contains s k\<close>\<close>
  "contains [] k = (k = [])"
| "contains (c # cs) k = (startswith (c # cs) k \<or> contains cs k)"

fun join :: "string \<Rightarrow> string list \<Rightarrow> string" where
  \<comment> \<open>\<open>sep.join(parts)\<close>\<close>
  "join sep [] = []"
| "join sep [p] = p"
| "join sep (p # q # ps) = p @ sep @ join sep (q # ps)"

definition digit_char :: "nat \<Rightarrow> char" where
  "digit_char d = char_of (48 + d)"

function str_nat :: "nat \<Rightarrow> string" where
  "str_nat n = (if n < 10 then [digit_char n] else str_nat (n div 10) @ [digit_char (n mod 10)])"
  by pat_completeness auto
termination
  by (relation "measure id") auto

declare str_nat.simps [simp del]

definition str_int :: "int \<Rightarrow> string" where
  \<comment> \<open>\<open>str(i)\<close> for an integer\<close>
  "str_int i = (if i < 0 then CHR ''-'' # str_nat (nat (- i)) else str_nat (nat i))"

fun str_pyval :: "pyval \<Rightarrow> string" where
  \<comment> \<open>what an f-string interpolates for a metadata value\<close>
  "str_pyval (PyStr s) = s"
| "str_pyval (PyInt i) = str_int i"

fun split_last :: "char \<Rightarrow> string \<Rightarrow> string" where
  \<comment> \<open>\<open>s.split(sep)[-1]\<close>: what follows the last separator, the whole string if none\<close>
  "split_last sep [] = []"
| "split_last sep (c # cs) =
     (if sep \<in> set cs then split_last sep cs
      else if c = sep then cs else c # cs)"

subsection \<open>Floating-point numbers\<close>

text \<open>
  A Python float is modelled by the number it denotes: \<open>Finite x\<close> for a float whose
  exact value is \<open>x\<close>, or an infinity, or \<open>NaN\<close>.  Comparison of floats is exact;
  arithmetic on floats rounds, in a way that depends on the interpreter, and is left to
  a parameter where the code uses it.  The literals \<open>0.8\<close> and \<open>0.6\<close> of the code
  denote the floats nearest to these decimals.
\<close>

datatype pyfloat = Finite real | PosInf | NegInf | NaN

fun float_gt :: "pyfloat \<Rightarrow> pyfloat \<Rightarrow> bool" where
  \<comment> \<open>\<open>a > b\<close>\<close>
  "float_gt NaN b = False"
| "float_gt a NaN = False"
| "float_gt (Finite x) (Finite y) = (x > y)"
| "float_gt (Finite x) NegInf = True"
| "float_gt (Finite x) PosInf = False"
| "float_gt PosInf PosInf = False"
| "float_gt PosInf b = True"
| "float_gt NegInf b = False"


definition float_0_8 :: pyfloat where
  \<comment> \<open>the float that the literal \<open>0.8\<close> denotes\<close>
  "float_0_8 = Finite (3602879701896397 / 4503599627370496)"

definition float_0_6 :: pyfloat where
  \<comment> \<open>the float that the literal \<open>0.6\<close> denotes\<close>
  "float_0_6 = Finite (5404319552844595 / 9007199254740992)"

section \<open>External capabilities\<close>

text \<open>
  The vector store and the language model are libraries outside the repository.  They
  are parameters of the model: each is a function that answers a request with a value
  or with a raised exception.  A prompt is kept as the template chosen and the values
  substituted into it.  Every request made to a capability is appended to a trace, so
  that a theorem can say that a capability was not invoked.  The float arithmetic of the
  interpreter is a parameter too: \<open>float_mean scores\<close> is the float that
  \<open>sum(scores) / len(scores)\<close> evaluates to on a non-empty list.
\<close>

datatype prompt =
    TablePrompt string string
  | CompliancePrompt string string
  | BankingPrompt string string
  | StructuredPrompt string string string
  | ValidationPrompt string string

datatype call =
    SimilaritySearch string int "metadata option"
  | SimilaritySearchWithScore string int "metadata option"
  | LLMInvoke prompt

record capabilities =
  store_similarity_search :: "string \<Rightarrow> int \<Rightarrow> metadata option \<Rightarrow> error + document list"
  store_similarity_search_with_score ::
    "string \<Rightarrow> int \<Rightarrow> metadata option \<Rightarrow> error + (document \<times> pyfloat) list"
  llm_invoke :: "prompt \<Rightarrow> error + string"
  float_mean :: "pyfloat list \<Rightarrow> pyfloat"

type_synonym trace = "call list"

section \<open>Vector store wrappers (vector\_store.py)\<close>

definition similarity_search ::
  "capabilities \<Rightarrow> string \<Rightarrow> int \<Rightarrow> metadata option \<Rightarrow> trace \<Rightarrow> (error + document list) \<times> trace" where
  "similarity_search caps query' k filter_dict tr =
     (case store_similarity_search caps query' k filter_dict of
        Inl e \<Rightarrow> Inl (Exception (''Failed to perform similarity search: '' @ str_of_error e))
      | Inr results \<Rightarrow> Inr results,
      tr @ [SimilaritySearch query' k filter_dict])"

definition similarity_search_with_score ::
  "capabilities \<Rightarrow> string \<Rightarrow> int \<Rightarrow> metadata option \<Rightarrow> trace
     \<Rightarrow> (error + (document \<times> pyfloat) list) \<times> trace" where
  "similarity_search_with_score caps query' k filter_dict tr =
     (case store_similarity_search_with_score caps query' k filter_dict of
        Inl e \<Rightarrow> Inl (Exception (''Failed to perform similarity search with score: '' @ str_of_error e))
      | Inr results \<Rightarrow> Inr results,
      tr @ [SimilaritySearchWithScore query' k filter_dict])"

section \<open>Language model manager (llm\_manager.py)\<close>

definition generate_response ::
  "capabilities \<Rightarrow> string \<Rightarrow> string \<Rightarrow> string \<Rightarrow> trace \<Rightarrow> string \<times> trace" where
  "generate_response caps question ctx prompt_type tr =
     (let prompt =
            (if prompt_type = ''table'' then TablePrompt ctx question
             else if prompt_type = ''compliance'' then CompliancePrompt ctx question
             else BankingPrompt ctx question)
      in (case llm_invoke caps prompt of
            Inl e \<Rightarrow> ''Error generating response: '' @ str_of_error e
          | Inr content \<Rightarrow> content,
          tr @ [LLMInvoke prompt]))"

datatype 'j structured =
    Parsed 'j
  | FormatError string
  | StructuredError string

text \<open>
  \<open>Parsed j\<close> is the value \<open>json.loads\<close> returned, \<open>FormatError raw\<close> the dictionary
  \<open>{"response": raw, "format_error": True}\<close>, \<open>StructuredError msg\<close> the dictionary
  \<open>{"error": msg}\<close>.  The JSON parser is a parameter: \<open>None\<close> when it raises.
\<close>

definition generate_structured_response ::
  "capabilities \<Rightarrow> (string \<Rightarrow> 'j option) \<Rightarrow> string \<Rightarrow> string \<Rightarrow> string \<Rightarrow> trace
     \<Rightarrow> 'j structured \<times> trace" where
  "generate_structured_response caps json_loads question ctx response_format tr =
     (let structured_prompt = StructuredPrompt ctx question response_format
      in (case llm_invoke caps structured_prompt of
            Inl e \<Rightarrow> StructuredError (str_of_error e)
          | Inr content \<Rightarrow>
              (case json_loads content of
                 Some j \<Rightarrow> Parsed j
               | None \<Rightarrow> FormatError content),
          tr @ [LLMInvoke structured_prompt]))"

datatype validation =
    EmptyDict
  | Validation string string
  | ValidationFailed string

text \<open>
  \<open>Validation v r\<close> is \<open>{"validation_response": v, "original_response": r}\<close>,
  \<open>ValidationFailed msg\<close> is \<open>{"error": msg}\<close>, \<open>EmptyDict\<close> is \<open>{}\<close>.
\<close>

definition validate_banking_response ::
  "capabilities \<Rightarrow> string \<Rightarrow> string \<Rightarrow> trace \<Rightarrow> validation \<times> trace" where
  "validate_banking_response caps response ctx tr =
     (let validation_prompt = ValidationPrompt response ctx
      in (case llm_invoke caps validation_prompt of
            Inl e \<Rightarrow> ValidationFailed (''Validation failed: '' @ str_of_error e)
          | Inr content \<Rightarrow> Validation content response,
          tr @ [LLMInvoke validation_prompt]))"

section \<open>Retrieval chain (retrieval\_chain.py)\<close>

record query_result =
  answer :: string
  sources :: "metadata list"
  confidence :: string
  context' :: "string option"
  validation :: "validation option"

text \<open>
  The result dictionary of \<open>query\<close>; \<open>context'\<close> (the key \<open>context\<close>) and \<open>validation\<close> are \<open>None\<close> where the
  dictionary has no such key.
\<close>

definition file_name_of :: "string \<Rightarrow> string" where
  \<comment> \<open>\<open>p.split('/')[-1] if '/' in p else p\<close>\<close>
  "file_name_of p = (if CHR ''/'' \<in> set p then split_last (CHR ''/'') p else p)"

definition source_label :: "metadata \<Rightarrow> error + string" where
  \<comment> \<open>the part of \<open>source_info\<close> chosen by the \<open>if\<close>/\<open>elif\<close>/\<open>else\<close> of \<open>_combine_context\<close>\<close>
  "source_label md =
     (case map_of md ''file_path'' of
        Some (PyStr p) \<Rightarrow> Inr (file_name_of p)
      | Some (PyInt i) \<Rightarrow> Inl (Exception ''argument of type 'int' is not iterable'')
      | None \<Rightarrow>
          (case map_of md ''source'' of
             Some v \<Rightarrow> Inr (str_pyval v)
           | None \<Rightarrow> Inr ''Unknown source''))"

definition page_suffix :: "metadata \<Rightarrow> string" where
  \<comment> \<open>what \<open>if 'page' in metadata\<close> appends to \<open>source_info\<close>\<close>
  "page_suffix md =
     (case map_of md ''page'' of
        Some v \<Rightarrow> '' (Page: '' @ str_pyval v @ '')''
      | None \<Rightarrow> [])"

definition source_info :: "nat \<Rightarrow> metadata \<Rightarrow> error + string" where
  "source_info i md =
     (case source_label md of
        Inl e \<Rightarrow> Inl e
      | Inr label \<Rightarrow> Inr (''DOCUMENT '' @ str_nat i @ '': '' @ label @ page_suffix md))"

definition formatted_content :: "nat \<Rightarrow> document \<Rightarrow> error + string" where
  "formatted_content i doc =
     (case source_info i (metadata doc) of
        Inl e \<Rightarrow> Inl e
      | Inr info \<Rightarrow> Inr (info @ ''\<newline>'' @ strip (page_content doc)))"

fun context_parts :: "nat \<Rightarrow> document list \<Rightarrow> error + string list" where
  \<comment> \<open>the loop \<open>for i, doc in enumerate(documents, 1)\<close>, from index \<open>i\<close> on\<close>
  "context_parts i [] = Inr []"
| "context_parts i (doc # docs) =
     (case formatted_content i doc of
        Inl e \<Rightarrow> Inl e
      | Inr part \<Rightarrow>
          (case context_parts (Suc i) docs of
             Inl e \<Rightarrow> Inl e
           | Inr parts \<Rightarrow> Inr (part # parts)))"

definition delimiter :: string where
  "delimiter = ''\<newline>\<newline>---\<newline>\<newline>''"

definition combine_context :: "document list \<Rightarrow> error + string" where
  "combine_context documents =
     (case context_parts 1 documents of
        Inl e \<Rightarrow> Inl e
      | Inr parts \<Rightarrow> Inr (join delimiter parts))"

definition compliance_keywords :: "string list" where
  "compliance_keywords =
     [''regulation'', ''compliance'', ''regulatory'', ''requirement'',
      ''deadline'', ''audit'', ''policy'', ''procedure'']"

definition is_table :: "document \<Rightarrow> bool" where
  \<comment> \<open>\<open>doc.metadata.get('content_type') == 'table'\<close>\<close>
  "is_table doc = (map_of (metadata doc) ''content_type'' = Some (PyStr ''table''))"

definition has_compliance_keyword :: "document \<Rightarrow> bool" where
  \<comment> \<open>\<open>any(keyword in content_lower for keyword in compliance_keywords)\<close>\<close>
  "has_compliance_keyword doc =
     (let content_lower = lower (page_content doc)
      in list_ex (\<lambda>keyword. contains content_lower keyword) compliance_keywords)"

fun determine_prompt_type :: "document list \<Rightarrow> string" where
  "determine_prompt_type [] = ''banking''"
| "determine_prompt_type (doc # docs) =
     (if is_table doc then ''table''
      else if has_compliance_keyword doc then ''compliance''
      else determine_prompt_type docs)"

definition confidence_of_score :: "pyfloat \<Rightarrow> string" where
  \<comment> \<open>the threshold cascade of \<open>_calculate_confidence\<close>\<close>
  "confidence_of_score avg_score =
     (if float_gt avg_score float_0_8 then ''high''
      else if float_gt avg_score float_0_6 then ''medium''
      else ''low'')"

definition calculate_confidence ::
  "capabilities \<Rightarrow> document list \<Rightarrow> string \<Rightarrow> trace \<Rightarrow> string \<times> trace" where
  "calculate_confidence caps documents answer' tr =
     (case similarity_search_with_score caps answer' (int (length documents)) None tr of
        (Inl e, tr') \<Rightarrow> (''medium'', tr')
      | (Inr docs_with_scores, tr') \<Rightarrow>
          (if docs_with_scores \<noteq> []
           then (confidence_of_score (float_mean caps (map snd docs_with_scores)), tr')
           else (''medium'', tr')))"

definition refusal_message :: string where
  "refusal_message = ''I cannot answer this question based on the uploaded documents. The information you're asking about is not available in the documents that have been loaded into the system.''"

definition error_result :: "error \<Rightarrow> query_result" where
  \<comment> \<open>the \<open>except Exception as e\<close> branch of \<open>query\<close>\<close>
  "error_result e =
     \<lparr>answer = ''Error processing query: '' @ str_of_error e, sources = [],
      confidence = ''error'', context' = None, validation = None\<rparr>"

definition query ::
  "capabilities \<Rightarrow> string \<Rightarrow> metadata option \<Rightarrow> int \<Rightarrow> trace \<Rightarrow> query_result \<times> trace" where
  "query caps question filter_dict k tr =
     (case similarity_search caps question k filter_dict tr of
        (Inl e, tr1) \<Rightarrow> (error_result e, tr1)
      | (Inr relevant_docs, tr1) \<Rightarrow>
          (if relevant_docs = []
           then (\<lparr>answer = refusal_message, sources = [], confidence = ''low'',
                   context' = None, validation = None\<rparr>, tr1)
           else
             (case combine_context relevant_docs of
                Inl e \<Rightarrow> (error_result e, tr1)
              | Inr ctx \<Rightarrow>
                  (let prompt_type = determine_prompt_type relevant_docs;
                       (answer', tr2) = generate_response caps question ctx prompt_type tr1;
                       (validation', tr3) = validate_banking_response caps answer' ctx tr2;
                       (confidence', tr4) = calculate_confidence caps relevant_docs answer' tr3
                   in (\<lparr>answer = answer', sources = map metadata relevant_docs,
                         confidence = confidence', context' = Some ctx,
                         validation = Some validation'\<rparr>, tr4)))))"

datatype 'j structured_result =
    StructuredFailure string
  | StructuredData "'j structured" "metadata list" string

text \<open>
  \<open>StructuredFailure msg\<close> is \<open>{"error": msg, "data": None}\<close>; \<open>StructuredData d s c\<close> is
  \<open>{"data": d, "sources": s, "context": c}\<close>.
\<close>

definition structured_query ::
  "capabilities \<Rightarrow> (string \<Rightarrow> 'j option) \<Rightarrow> string \<Rightarrow> string \<Rightarrow> metadata option \<Rightarrow> trace
     \<Rightarrow> 'j structured_result \<times> trace" where
  "structured_query caps json_loads question response_format filter_dict tr =
     (case similarity_search caps question 4 filter_dict tr of
        (Inl e, tr1) \<Rightarrow> (StructuredFailure (''Structured query failed: '' @ str_of_error e), tr1)
      | (Inr relevant_docs, tr1) \<Rightarrow>
          (if relevant_docs = []
           then (StructuredFailure ''No relevant documents found'', tr1)
           else
             (case combine_context relevant_docs of
                Inl e \<Rightarrow> (StructuredFailure (''Structured query failed: '' @ str_of_error e), tr1)
              | Inr ctx \<Rightarrow>
                  (let (structured_response, tr2) =
                         generate_structured_response caps json_loads question ctx
                           response_format tr1
                   in (StructuredData structured_response (map metadata relevant_docs) ctx,
                       tr2)))))"

section \<open>Assistant (banking\_assistant.py)\<close>

record ask_result = query_result +
  success :: bool

definition ask_question :: "capabilities \<Rightarrow> string \<Rightarrow> trace \<Rightarrow> ask_result \<times> trace" where
  "ask_question caps question tr =
     (if strip question = []
      then (\<lparr>answer = ''Please provide a valid question.'', sources = [], confidence = ''low'',
              context' = None, validation = None, success = False\<rparr>, tr)
      else
        (let (result, tr') = query caps question None 4 tr
         in (\<lparr>answer = answer result, sources = sources result,
               confidence = confidence result, context' = None,
               validation = (case validation result of
                               None \<Rightarrow> Some EmptyDict
                             | Some v \<Rightarrow> Some v),
               success = True\<rparr>, tr')))"

section \<open>Stored chunks (vector\_store.py)\<close>

text \<open>
  The vector store is a library outside the repository.  Its state is a value of a type
  \<open>'st\<close>, its stored entries have a type \<open>'e\<close>, and what the code asks of it is given by
  three parameters, each of which may raise: \<open>store_get st\<close> is the call
  \<open>vector_store.get()\<close>, which answers with the stored entries; \<open>make_document e\<close> builds
  the \<open>Document\<close> of an entry; \<open>store_delete docs st\<close> is the call
  \<open>vector_store.delete(documents=docs)\<close>, which answers with the new state.  The state
  after a call that raised is taken to be the state before it.
  \<open>delete_documents_by_source\<close> has no \<open>return\<close> statement: the value it gives back is
  Python's \<open>None\<close>, modelled as \<open>None :: nat option\<close>.
\<close>

record ('st, 'e) store_ops =
  store_get :: "'st \<Rightarrow> error + 'e list"
  make_document :: "'e \<Rightarrow> error + document"
  store_delete :: "document list \<Rightarrow> 'st \<Rightarrow> error + 'st"

fun make_documents :: "('e \<Rightarrow> error + document) \<Rightarrow> 'e list \<Rightarrow> error + document list" where
  \<comment> \<open>the loop of \<open>get_all_documents\<close> over the entries it inspects\<close>
  "make_documents mk [] = Inr []"
| "make_documents mk (e # es) =
     (case mk e of
        Inl err \<Rightarrow> Inl err
      | Inr doc \<Rightarrow>
          (case make_documents mk es of
             Inl err \<Rightarrow> Inl err
           | Inr docs \<Rightarrow> Inr (doc # docs)))"

definition get_all_documents ::
  "('st, 'e) store_ops \<Rightarrow> 'st \<Rightarrow> nat \<Rightarrow> error + document list" where
  \<comment> \<open>the loop stops at index \<open>limit\<close>\<close>
  "get_all_documents ops st limit =
     (case store_get ops st of
        Inl e \<Rightarrow> Inl (Exception (''Failed to get all documents: '' @ str_of_error e))
      | Inr results \<Rightarrow>
          (case make_documents (make_document ops) (take limit results) of
             Inl e \<Rightarrow> Inl (Exception (''Failed to get all documents: '' @ str_of_error e))
           | Inr documents \<Rightarrow> Inr documents))"

definition has_file_path :: "string \<Rightarrow> document \<Rightarrow> bool" where
  \<comment> \<open>\<open>doc.metadata.get('file_path') == source_path\<close>\<close>
  "has_file_path source_path doc = (map_of (metadata doc) ''file_path'' = Some (PyStr source_path))"

definition delete_documents_by_source ::
  "('st, 'e) store_ops \<Rightarrow> 'st \<Rightarrow> string \<Rightarrow> (error + nat option) \<times> 'st" where
  "delete_documents_by_source ops st source_path =
     (case get_all_documents ops st 1000 of
        Inl e \<Rightarrow>
          (Inl (Exception (''Failed to delete documents by source: '' @ str_of_error e)), st)
      | Inr all_docs \<Rightarrow>
          (let docs_to_delete = filter (has_file_path source_path) all_docs
           in if docs_to_delete \<noteq> []
              then (case store_delete ops docs_to_delete st of
                      Inl e \<Rightarrow>
                        (Inl (Exception (''Failed to delete documents by source: ''
                                          @ str_of_error e)), st)
                    | Inr st' \<Rightarrow> (Inr None, st'))
              else (Inr None, st)))"

section \<open>Regular expressions (the library \<open>re\<close>)\<close>

text \<open>
  \<open>_extract_tables\<close> finds table regions with three regular expressions.  They are
  modelled by a small backtracking matcher: \<open>rx_match r s\<close> lists, in the order in which
  the library tries them, the rests of \<open>s\<close> that each way of matching \<open>r\<close> at the start
  of \<open>s\<close> leaves; the match the library reports is the first one.  A greedy repetition
  tries one more iteration before it stops, a lazy one stops before it tries one more.
  An iteration that consumes nothing ends a repetition.  The character classes are those
  of the library on code points below 256.
\<close>

datatype char_class = AnyChar | NotNewline | Whitespace | WordChar | Digit | UpperAZ | Literal char

definition py_isdigit :: "char \<Rightarrow> bool" where
  \<comment> \<open>\<open>\d\<close>\<close>
  "py_isdigit c = (let n = (of_char c :: nat) in 48 \<le> n \<and> n \<le> 57)"

definition py_isword :: "char \<Rightarrow> bool" where
  \<comment> \<open>\<open>\w\<close>: alphanumeric or underscore\<close>
  "py_isword c =
     (let n = (of_char c :: nat)
      in (48 \<le> n \<and> n \<le> 57) \<or> (65 \<le> n \<and> n \<le> 90) \<or> (97 \<le> n \<and> n \<le> 122) \<or> n = 95
         \<or> n \<in> set [170, 178, 179, 181, 185, 186, 188, 189, 190]
         \<or> (192 \<le> n \<and> n \<le> 214) \<or> (216 \<le> n \<and> n \<le> 246) \<or> (248 \<le> n \<and> n \<le> 255))"

fun in_class :: "char_class \<Rightarrow> char \<Rightarrow> bool" where
  "in_class AnyChar c = True"
| "in_class NotNewline c = (c \<noteq> CHR 0x0A)"
| "in_class Whitespace c = py_isspace c"
| "in_class WordChar c = py_isword c"
| "in_class Digit c = py_isdigit c"
| "in_class UpperAZ c = (let n = (of_char c :: nat) in 65 \<le> n \<and> n \<le> 90)"
| "in_class (Literal l) c = (c = l)"

datatype regex =
    Eps
  | Chr char_class
  | Seq regex regex
  | Alt regex regex
  | Star regex
  | LazyStar regex
  | Opt regex
  | Lookahead regex
  | EndOfString

function rx_match :: "regex \<Rightarrow> string \<Rightarrow> string list" where
  "rx_match Eps s = [s]"
| "rx_match (Chr cl) s = (case s of [] \<Rightarrow> [] | c # cs \<Rightarrow> if in_class cl c then [cs] else [])"
| "rx_match (Seq a b) s = concat (map (rx_match b) (rx_match a s))"
| "rx_match (Alt a b) s = rx_match a s @ rx_match b s"
| "rx_match (Star a) s =
     concat (map (\<lambda>s'. if length s' < length s then rx_match (Star a) s' else [])
               (rx_match a s)) @ [s]"
| "rx_match (LazyStar a) s =
     s # concat (map (\<lambda>s'. if length s' < length s then rx_match (LazyStar a) s' else [])
                   (rx_match a s))"
| "rx_match (Opt a) s = rx_match a s @ [s]"
| "rx_match (Lookahead a) s = (if rx_match a s = [] then [] else [s])"
| "rx_match EndOfString s = (if s = [] then [s] else [])"
  by pat_completeness auto
termination
  by (relation "inv_image (less_than <*lex*> less_than) (\<lambda>(r, s). (size r, length s))") auto

definition Plus :: "regex \<Rightarrow> regex" where
  \<comment> \<open>\<open>r+\<close>\<close>
  "Plus r = Seq r (Star r)"

fun lit :: "string \<Rightarrow> regex" where
  \<comment> \<open>a literal string\<close>
  "lit [] = Eps"
| "lit (c # cs) = Seq (Chr (Literal c)) (lit cs)"

function finditer :: "regex \<Rightarrow> nat \<Rightarrow> string \<Rightarrow> (nat \<times> nat) list" where
  \<comment> \<open>the spans of the successive matches in \<open>s\<close>, the rest of the text from offset
     \<open>pos\<close> on: after a match the search goes on where the match ended, after a failure
     one character further\<close>
  "finditer r pos s =
     (case rx_match r s of
        rest # _ \<Rightarrow>
          if length rest < length s
          then (pos, pos + (length s - length rest))
               # finditer r (pos + (length s - length rest)) rest
          else (pos, pos) # (case s of [] \<Rightarrow> [] | _ # t \<Rightarrow> finditer r (Suc pos) t)
      | [] \<Rightarrow> (case s of [] \<Rightarrow> [] | _ # t \<Rightarrow> finditer r (Suc pos) t))"
  by pat_completeness auto
termination
  by (relation "measure (\<lambda>(r, pos, s). length s)") auto

declare finditer.simps [simp del]

section \<open>Document processor (document\_processor.py)\<close>

definition markdown_table :: regex where
  \<comment> \<open>\<open>(\|[^\n]*\|[^\n]*\n)+\<close>\<close>
  "markdown_table =
     Plus (Seq (Chr (Literal CHR ''|'')) (Seq (Star (Chr NotNewline))
          (Seq (Chr (Literal CHR ''|'')) (Seq (Star (Chr NotNewline))
               (Chr (Literal CHR 0x0A))))))"

definition space_table :: regex where
  \<comment> \<open>\<open>(\s+\w+\s+\w+\s+\w+\s*\n)+\<close>\<close>
  "space_table =
     Plus (Seq (Plus (Chr Whitespace)) (Seq (Plus (Chr WordChar))
          (Seq (Plus (Chr Whitespace)) (Seq (Plus (Chr WordChar))
          (Seq (Plus (Chr Whitespace)) (Seq (Plus (Chr WordChar))
          (Seq (Star (Chr Whitespace)) (Chr (Literal CHR 0x0A)))))))))"

definition table_reference :: regex where
  \<comment> \<open>\<open>(Table\s+\d+\.?\d*[^\n]*\n.*?)(?=\n\n|\n[A-Z]|\Z)\<close>, where \<open>.\<close> matches every
     character (flag \<open>DOTALL\<close>)\<close>
  "table_reference =
     Seq (lit ''Table'') (Seq (Plus (Chr Whitespace)) (Seq (Plus (Chr Digit))
         (Seq (Opt (Chr (Literal CHR ''.''))) (Seq (Star (Chr Digit))
         (Seq (Star (Chr NotNewline)) (Seq (Chr (Literal CHR 0x0A))
         (Seq (LazyStar (Chr AnyChar))
              (Lookahead
                 (Alt (Seq (Chr (Literal CHR 0x0A)) (Chr (Literal CHR 0x0A)))
                 (Alt (Seq (Chr (Literal CHR 0x0A)) (Chr UpperAZ))
                      EndOfString))))))))))"

definition table_patterns :: "regex list" where
  "table_patterns = [markdown_table, space_table, table_reference]"

record table =
  table_text :: string
  start_pos :: nat
  end_pos :: nat
  table_type :: string

text \<open>The dictionary of a detected table; \<open>table_text\<close> and \<open>table_type\<close> are its keys
  \<open>text\<close> and \<open>type\<close>.\<close>

definition slice :: "string \<Rightarrow> nat \<Rightarrow> nat \<Rightarrow> string" where
  \<comment> \<open>\<open>content[a:b]\<close> for indices that are not negative\<close>
  "slice content a b = take (b - a) (drop a content)"

definition extract_tables :: "string \<Rightarrow> table list" where
  "extract_tables content =
     concat (map (\<lambda>pattern.
                    map (\<lambda>(s, e). \<lparr>table_text = slice content s e, start_pos = s, end_pos = e,
                                   table_type = ''structured_table''\<rparr>)
                        (finditer pattern 0 content))
                 table_patterns)"

fun dict_update :: "string \<Rightarrow> pyval \<Rightarrow> metadata \<Rightarrow> metadata" where
  \<comment> \<open>a later entry of a dictionary display replaces an earlier one with the same key\<close>
  "dict_update k v [] = [(k, v)]"
| "dict_update k v ((k', v') # md) =
     (if k' = k then (k, v) # md else (k', v') # dict_update k v md)"

record path =
  path_str :: string
  path_name :: string

text \<open>A path of the library \<open>pathlib\<close>, given by \<open>str(file_path)\<close> and \<open>file_path.name\<close>.\<close>

definition text_chunk :: "document \<Rightarrow> path \<Rightarrow> string \<Rightarrow> string \<Rightarrow> nat \<Rightarrow> document" where
  \<comment> \<open>the text chunk appended when \<open>chunks\<close> holds \<open>n\<close> chunks\<close>
  "text_chunk doc file_path upload_timestamp chunk n =
     \<lparr>page_content = chunk,
      metadata =
        dict_update ''upload_date'' (PyStr upload_timestamp)
          (dict_update ''content_type'' (PyStr ''text'')
            (dict_update ''file_name'' (PyStr (path_name file_path))
              (dict_update ''file_path'' (PyStr (path_str file_path))
                (dict_update ''chunk_id'' (PyInt (int n)) (metadata doc)))))\<rparr>"

definition table_chunk :: "document \<Rightarrow> path \<Rightarrow> string \<Rightarrow> table \<Rightarrow> nat \<Rightarrow> document" where
  \<comment> \<open>the table chunk appended when \<open>chunks\<close> holds \<open>n\<close> chunks\<close>
  "table_chunk doc file_path upload_timestamp tbl n =
     \<lparr>page_content = table_text tbl,
      metadata =
        dict_update ''upload_date'' (PyStr upload_timestamp)
          (dict_update ''table_id'' (PyStr (''table_'' @ str_nat n))
            (dict_update ''content_type'' (PyStr ''table'')
              (dict_update ''file_name'' (PyStr (path_name file_path))
                (dict_update ''file_path'' (PyStr (path_str file_path))
                  (dict_update ''chunk_id'' (PyInt (int n)) (metadata doc))))))\<rparr>"

fun append_text_chunks ::
  "document \<Rightarrow> path \<Rightarrow> string \<Rightarrow> string list \<Rightarrow> document list \<Rightarrow> document list" where
  \<comment> \<open>the loops \<open>for i, chunk in enumerate(pre_chunks)\<close> and
     \<open>for i, chunk in enumerate(remaining_chunks)\<close>\<close>
  "append_text_chunks doc file_path ts [] chunks = chunks"
| "append_text_chunks doc file_path ts (c # cs) chunks =
     append_text_chunks doc file_path ts cs
       (chunks @ [text_chunk doc file_path ts c (length chunks)])"

definition split_span ::
  "(string \<Rightarrow> string list) \<Rightarrow> document \<Rightarrow> path \<Rightarrow> string \<Rightarrow> string \<Rightarrow> document list
     \<Rightarrow> document list" where
  \<comment> \<open>a span of text between tables: stripped, and split if anything is left\<close>
  "split_span split_text doc file_path ts piece chunks =
     (let stripped = strip piece
      in if stripped \<noteq> []
         then append_text_chunks doc file_path ts (split_text stripped) chunks
         else chunks)"

fun table_loop ::
  "(string \<Rightarrow> string list) \<Rightarrow> document \<Rightarrow> path \<Rightarrow> string \<Rightarrow> table list \<Rightarrow> nat
     \<Rightarrow> document list \<Rightarrow> nat \<times> document list" where
  \<comment> \<open>the loop \<open>for table in tables\<close>, from \<open>current_pos\<close> and \<open>chunks\<close>\<close>
  "table_loop split_text doc file_path ts [] current_pos chunks = (current_pos, chunks)"
| "table_loop split_text doc file_path ts (tbl # tables) current_pos chunks =
     (let chunks1 =
            (if start_pos tbl > current_pos
             then split_span split_text doc file_path ts
                    (slice (page_content doc) current_pos (start_pos tbl)) chunks
             else chunks);
          chunks2 = chunks1 @ [table_chunk doc file_path ts tbl (length chunks1)]
      in table_loop split_text doc file_path ts tables (end_pos tbl) chunks2)"

definition chunk_with_tables ::
  "(string \<Rightarrow> string list) \<Rightarrow> document \<Rightarrow> table list \<Rightarrow> path \<Rightarrow> string \<Rightarrow> document list" where
  "chunk_with_tables split_text doc tables file_path upload_timestamp =
     (let content = page_content doc;
          (current_pos, chunks) =
            table_loop split_text doc file_path upload_timestamp
              (sort_key start_pos tables) 0 []
      in if current_pos < length content
         then split_span split_text doc file_path upload_timestamp (drop current_pos content)
                chunks
         else chunks)"

definition plain_chunks ::
  "(string \<Rightarrow> string list) \<Rightarrow> document \<Rightarrow> path \<Rightarrow> string \<Rightarrow> document list" where
  \<comment> \<open>the branch of \<open>_process_documents\<close> for a document without tables\<close>
  "plain_chunks split_text doc file_path upload_timestamp =
     (let chunks = split_text (page_content doc)
      in map (\<lambda>(i, chunk).
                \<lparr>page_content = chunk,
                 metadata =
                   dict_update ''total_chunks'' (PyInt (int (length chunks)))
                     (dict_update ''upload_date'' (PyStr upload_timestamp)
                       (dict_update ''content_type'' (PyStr ''text'')
                         (dict_update ''file_name'' (PyStr (path_name file_path))
                           (dict_update ''file_path'' (PyStr (path_str file_path))
                             (dict_update ''chunk_id'' (PyInt (int i)) (metadata doc))))))\<rparr>)
             (enumerate 0 chunks))"

definition process_document ::
  "(string \<Rightarrow> string list) \<Rightarrow> document \<Rightarrow> path \<Rightarrow> string \<Rightarrow> document list" where
  \<comment> \<open>the body of the loop of \<open>_process_documents\<close> for one loaded document\<close>
  "process_document split_text doc file_path upload_timestamp =
     (let table_data = extract_tables (page_content doc)
      in if table_data \<noteq> []
         then chunk_with_tables split_text doc table_data file_path upload_timestamp
         else plain_chunks split_text doc file_path upload_timestamp)"

definition process_documents ::
  "(string \<Rightarrow> string list) \<Rightarrow> document list \<Rightarrow> path \<Rightarrow> string \<Rightarrow> document list" where
  "process_documents split_text documents file_path upload_timestamp =
     concat (map (\<lambda>doc. process_document split_text doc file_path upload_timestamp) documents)"

section \<open>Example inputs\<close>

text \<open>Concrete chunks and capability behaviours at which the theorems below are evaluated.\<close>

definition doc_audit :: document where
  "doc_audit = \<lparr>page_content = ''Annual Audit'', metadata = [(''content_type'', PyStr ''text'')]\<rparr>"

definition doc_table :: document where
  "doc_table = \<lparr>page_content = ''|a|b|'', metadata = [(''content_type'', PyStr ''table'')]\<rparr>"

definition doc_plain :: document where
  "doc_plain = \<lparr>page_content = ''Savings accounts'', metadata = [(''content_type'', PyStr ''text'')]\<rparr>"

definition doc_bare :: document where
  "doc_bare = \<lparr>page_content = '' APR: 8.5% '', metadata = []\<rparr>"

definition doc_sourced :: document where
  "doc_sourced = \<lparr>page_content = ''Overdraft'', metadata = [(''source'', PyStr ''notes.txt'')]\<rparr>"

definition doc_loaded :: document where
  "doc_loaded =
     \<lparr>page_content = ''Fees apply.'',
      metadata = [(''source'', PyStr ''upload''), (''page'', PyInt 3),
                  (''file_path'', PyStr ''docs/fees.pdf''), (''file_name'', PyStr ''fees.pdf'')]\<rparr>"

definition exact_mean :: "pyfloat list \<Rightarrow> pyfloat" where
  \<comment> \<open>the mean without rounding; on the score lists of the examples below, one or two
     small binary fractions, the float computation is exact and gives this value\<close>
  "exact_mean scores =
     Finite (sum_list (map (\<lambda>f. case f of Finite x \<Rightarrow> x | _ \<Rightarrow> 0) scores)
             / real (length scores))"

definition caps_empty_index :: capabilities where
  \<comment> \<open>an index with nothing to retrieve\<close>
  "caps_empty_index =
     \<lparr>store_similarity_search = (\<lambda>q k f. Inr []),
      store_similarity_search_with_score = (\<lambda>q k f. Inr []),
      llm_invoke = (\<lambda>p. Inr ''unused''),
      float_mean = exact_mean\<rparr>"

definition caps_llm_down :: capabilities where
  \<comment> \<open>retrieval works, every call of the language model raises\<close>
  "caps_llm_down =
     \<lparr>store_similarity_search = (\<lambda>q k f. Inr [doc_table]),
      store_similarity_search_with_score = (\<lambda>q k f. Inr [(doc_table, Finite 0.875)]),
      llm_invoke = (\<lambda>p. Inl (Exception ''service unavailable'')),
      float_mean = exact_mean\<rparr>"

definition caps_store_down :: capabilities where
  \<comment> \<open>every request to the vector store raises\<close>
  "caps_store_down =
     \<lparr>store_similarity_search = (\<lambda>q k f. Inl (Exception ''embedding failed'')),
      store_similarity_search_with_score = (\<lambda>q k f. Inl (Exception ''embedding failed'')),
      llm_invoke = (\<lambda>p. Inr ''unused''),
      float_mean = exact_mean\<rparr>"

definition caps_prose :: capabilities where
  \<comment> \<open>retrieval works, the language model answers in prose\<close>
  "caps_prose =
     \<lparr>store_similarity_search = (\<lambda>q k f. Inr [doc_plain]),
      store_similarity_search_with_score =
        (\<lambda>q k f. Inr [(doc_plain, Finite 0.875), (doc_plain, Finite 0.625)]),
      llm_invoke = (\<lambda>p. Inr ''The rate is 8.5 percent''),
      float_mean = exact_mean\<rparr>"

definition list_store :: "(document list, document) store_ops" where
  \<comment> \<open>a store kept as the list of its documents, whose delete removes exactly the
     documents handed to it\<close>
  "list_store =
     \<lparr>store_get = (\<lambda>st. Inr st),
      make_document = (\<lambda>e. Inr e),
      store_delete = (\<lambda>docs st. Inr (filter (\<lambda>d. d \<notin> set docs) st))\<rparr>"

definition doc_rates :: document where
  \<comment> \<open>a loaded document: a table heading followed by a one-line grid\<close>
  "doc_rates =
     \<lparr>page_content = ''Table 1\<newline>|a|b|\<newline>'', metadata = [(''source'', PyStr ''docs/rates.md'')]\<rparr>"

definition doc_intro :: document where
  \<comment> \<open>a loaded document: a line of text, then the heading and the grid\<close>
  "doc_intro =
     \<lparr>page_content = ''Intro text.\<newline>Table 1\<newline>|a|b|\<newline>'',
      metadata = [(''source'', PyStr ''docs/rates.md'')]\<rparr>"

definition rates_path :: path where
  "rates_path = \<lparr>path_str = ''docs/rates.md'', path_name = ''rates.md''\<rparr>"

function fixed_size_split :: "nat \<Rightarrow> string \<Rightarrow> string list" where
  \<comment> \<open>a splitter that cuts its input into pieces of \<open>n\<close> characters\<close>
  "fixed_size_split n s =
     (if n = 0 \<or> length s \<le> n then [s] else take n s # fixed_size_split n (drop n s))"
  by pat_completeness auto
termination
  by (relation "measure (\<lambda>(n, s). length s)") auto

declare fixed_size_split.simps [simp del]

definition json_loads_fails :: "string \<Rightarrow> unit option" where
  \<comment> \<open>a parser that rejects its input\<close>
  "json_loads_fails raw = None"

section \<open>Claims about the specification\<close>


definition stamped :: "path \<Rightarrow> document \<Rightarrow> bool" where
  \<comment> \<open>the chunk carries the path and the file name of the file it was cut from\<close>
  "stamped fp d =
     (map_of (metadata d) ''file_path'' = Some (PyStr (path_str fp))
      \<and> map_of (metadata d) ''file_name'' = Some (PyStr (path_name fp)))"

definition non_whitespace :: "string \<Rightarrow> string" where
  \<comment> \<open>the non-whitespace content of a text\<close>
  "non_whitespace s = filter (\<lambda>c. \<not> py_isspace c) s"

section \<open>Properties\<close>

subsection \<open>Auxiliary facts\<close>

lemma strip_Nil_iff: "strip s = [] \<longleftrightarrow> (\<forall>c\<in>set s. py_isspace c)"
proof
  assume "strip s = []"
  then have a: "\<forall>x\<in>set (dropWhile py_isspace s). py_isspace x"
    by (simp add: strip_def dropWhile_eq_Nil_conv)
  have "dropWhile py_isspace s = []"
  proof (rule ccontr)
    assume n: "dropWhile py_isspace s \<noteq> []"
    then have "\<not> py_isspace (hd (dropWhile py_isspace s))" by (rule hd_dropWhile)
    moreover have "hd (dropWhile py_isspace s) \<in> set (dropWhile py_isspace s)" using n by simp
    ultimately show False using a by blast
  qed
  then show "\<forall>c\<in>set s. py_isspace c" by (simp add: dropWhile_eq_Nil_conv)
next
  assume "\<forall>c\<in>set s. py_isspace c"
  then show "strip s = []" by (auto simp: strip_def dest: set_dropWhileD)
qed

lemma fst_generate_response:
  "fst (generate_response caps question ctx prompt_type tr) =
     (case llm_invoke caps (if prompt_type = ''table'' then TablePrompt ctx question
             else if prompt_type = ''compliance'' then CompliancePrompt ctx question
             else BankingPrompt ctx question) of
        Inl e \<Rightarrow> ''Error generating response: '' @ str_of_error e
      | Inr content \<Rightarrow> content)"
  by (simp add: generate_response_def Let_def)

lemma calculate_confidence_cases:
  "fst (calculate_confidence caps docs a tr) \<in> {''high'', ''medium'', ''low''}"
  by (auto simp: calculate_confidence_def similarity_search_with_score_def
      confidence_of_score_def split: sum.splits)

lemma query_answer:
  assumes "store_similarity_search caps question k filter_dict = Inr docs" and "docs \<noteq> []"
    and "combine_context docs = Inr ctx"
  shows "answer (fst (query caps question filter_dict k tr)) =
           fst (generate_response caps question ctx (determine_prompt_type docs)
                  (tr @ [SimilaritySearch question k filter_dict]))"
  using assms by (simp add: query_def similarity_search_def Let_def split_def)

lemma query_sources:
  assumes "store_similarity_search caps question k filter_dict = Inr docs" and "docs \<noteq> []"
    and "combine_context docs = Inr ctx"
  shows "sources (fst (query caps question filter_dict k tr)) = map metadata docs"
  using assms by (simp add: query_def similarity_search_def Let_def split_def)

lemma query_confidence:
  assumes "store_similarity_search caps question k filter_dict = Inr docs" and "docs \<noteq> []"
    and "combine_context docs = Inr ctx"
  shows "\<exists>a tr3. confidence (fst (query caps question filter_dict k tr)) =
           fst (calculate_confidence caps docs a tr3)"
  using assms by (auto simp add: query_def similarity_search_def Let_def split_def)

lemma query_confidence_cases:
  "confidence (fst (query caps question filter_dict k tr)) \<in> {''high'', ''medium'', ''low'', ''error''}"
proof (cases "store_similarity_search caps question k filter_dict")
  case (Inl e)
  then show ?thesis by (simp add: query_def similarity_search_def error_result_def)
next
  case (Inr docs)
  show ?thesis
  proof (cases "docs = []")
    case True
    with Inr show ?thesis by (simp add: query_def similarity_search_def)
  next
    case False
    show ?thesis
    proof (cases "combine_context docs")
      case (Inl e)
      with Inr False show ?thesis by (simp add: query_def similarity_search_def error_result_def)
    next
      case r: (Inr ctx)
      from query_confidence[OF Inr False r, of tr] obtain a tr3 where
        "confidence (fst (query caps question filter_dict k tr)) =
           fst (calculate_confidence caps docs a tr3)" by blast
      with calculate_confidence_cases[of caps docs a tr3] show ?thesis by auto
    qed
  qed
qed

subsection \<open>Refusal when nothing is retrieved\<close>

text \<open>
  Claim C1.  Whenever the similarity retrieval of a query returns an empty chunk sequence,
  \<open>query\<close> returns the fixed refusal message as the answer, an empty sources list and
  confidence \<open>low\<close>; the only capability request made is the similarity search itself, so
  the language model is not invoked.
\<close>

theorem query_no_evidence:
  assumes "store_similarity_search caps question k filter_dict = Inr []"
  shows "fst (query caps question filter_dict k tr) =
           \<lparr>answer = refusal_message, sources = [], confidence = ''low'',
            context' = None, validation = None\<rparr>
         \<and> snd (query caps question filter_dict k tr) =
             tr @ [SimilaritySearch question k filter_dict]"
  using assms by (simp add: query_def similarity_search_def)

theorem query_no_evidence_witness:
  "store_similarity_search caps_empty_index ''What is the capital of France?'' 4 None = Inr []
   \<and> fst (query caps_empty_index ''What is the capital of France?'' None 4 []) =
           \<lparr>answer = refusal_message, sources = [], confidence = ''low'',
            context' = None, validation = None\<rparr>
   \<and> snd (query caps_empty_index ''What is the capital of France?'' None 4 []) =
       [] @ [SimilaritySearch ''What is the capital of France?'' 4 None]"
proof -
  have h: "store_similarity_search caps_empty_index ''What is the capital of France?'' 4 None
             = Inr []"
    by (simp add: caps_empty_index_def)
  from h query_no_evidence[OF h, of "[]"] show ?thesis by blast
qed

subsection \<open>Structured extraction\<close>

text \<open>
  Claim C9.  When the language model answers a structured query with text that the JSON
  parser rejects, \<open>generate_structured_response\<close> returns the raw text with the
  \<open>format_error\<close> marker (the value \<open>FormatError raw\<close>), and \<open>structured_query\<close> returns
  it as its data, with the sources and the context: nothing is raised and no failure
  value is returned.
\<close>

theorem structured_response_format_error:
  assumes "llm_invoke caps (StructuredPrompt ctx question response_format) = Inr raw"
    and "json_loads raw = None"
  shows "fst (generate_structured_response caps json_loads question ctx response_format tr)
           = FormatError raw
         \<and> (store_similarity_search caps question 4 filter_dict = Inr docs \<and> docs \<noteq> []
              \<and> combine_context docs = Inr ctx \<longrightarrow>
            fst (structured_query caps json_loads question response_format filter_dict tr)
              = StructuredData (FormatError raw) (map metadata docs) ctx)"
  using assms
  by (simp add: generate_structured_response_def structured_query_def similarity_search_def
      split_def)

theorem structured_response_format_error_witness:
  "llm_invoke caps_prose
     (StructuredPrompt ''DOCUMENT 1: Unknown source\<newline>Savings accounts'' ''Which rate?''
        ''{rate: number}'') = Inr ''The rate is 8.5 percent''
   \<and> json_loads_fails ''The rate is 8.5 percent'' = None
   \<and> store_similarity_search caps_prose ''Which rate?'' 4 None = Inr [doc_plain]
   \<and> combine_context [doc_plain] = Inr ''DOCUMENT 1: Unknown source\<newline>Savings accounts''
   \<and> fst (generate_structured_response caps_prose json_loads_fails ''Which rate?''
            ''DOCUMENT 1: Unknown source\<newline>Savings accounts'' ''{rate: number}'' [])
       = FormatError ''The rate is 8.5 percent''
   \<and> fst (structured_query caps_prose json_loads_fails ''Which rate?'' ''{rate: number}'' None [])
       = StructuredData (FormatError ''The rate is 8.5 percent'') (map metadata [doc_plain])
           ''DOCUMENT 1: Unknown source\<newline>Savings accounts''"
proof -
  have l: "llm_invoke caps_prose
     (StructuredPrompt ''DOCUMENT 1: Unknown source\<newline>Savings accounts'' ''Which rate?''
        ''{rate: number}'') = Inr ''The rate is 8.5 percent''"
    by (simp add: caps_prose_def)
  have j: "json_loads_fails ''The rate is 8.5 percent'' = None"
    by (simp add: json_loads_fails_def)
  have r: "store_similarity_search caps_prose ''Which rate?'' 4 None = Inr [doc_plain]"
    by (simp add: caps_prose_def)
  have c: "combine_context [doc_plain]
             = Inr ''DOCUMENT 1: Unknown source\<newline>Savings accounts''"
    by code_simp
  from structured_response_format_error[where json_loads = json_loads_fails and tr = "[]"
      and filter_dict = None and docs = "[doc_plain]", OF l j] r c l j
  show ?thesis by simp
qed

subsection \<open>Empty questions\<close>

text \<open>
  Claim C10.  For a question that is empty or consists only of whitespace,
  \<open>ask_question\<close> returns \<open>success = False\<close> with the answer
  "Please provide a valid question.", an empty sources list and confidence \<open>low\<close>; the
  trace of capability requests is unchanged, so neither retrieval nor the index is
  touched.
\<close>

theorem ask_question_blank:
  assumes "\<forall>c\<in>set question. py_isspace c"
  shows "ask_question caps question tr =
           (\<lparr>answer = ''Please provide a valid question.'', sources = [],
             confidence = ''low'', context' = None, validation = None, success = False\<rparr>, tr)"
  using assms by (simp add: ask_question_def strip_Nil_iff)

theorem ask_question_blank_witness:
  "list_all py_isspace '' \<newline> ''
   \<and> ask_question caps_prose '' \<newline> '' [] =
           (\<lparr>answer = ''Please provide a valid question.'', sources = [],
             confidence = ''low'', context' = None, validation = None, success = False\<rparr>, [])
   \<and> ask_question caps_prose [] [] =
           (\<lparr>answer = ''Please provide a valid question.'', sources = [],
             confidence = ''low'', context' = None, validation = None, success = False\<rparr>, [])"
proof -
  have h: "\<forall>c\<in>set '' \<newline> ''. py_isspace c" by (simp add: py_isspace_def)
  have e: "\<forall>c\<in>set []. py_isspace c" by simp
  from h ask_question_blank[OF h, of caps_prose "[]"] ask_question_blank[OF e, of caps_prose "[]"]
  show ?thesis by (simp add: list_all_iff)
qed

subsection \<open>Choice of the answering policy\<close>

text \<open>
  Claim C5 says that the table policy is chosen whenever any retrieved chunk is a table,
  also when a chunk with a compliance keyword is present anywhere in the set.  The code
  decides at the first chunk, in retrieval order, that is a table or contains a keyword:
  with a keyword chunk retrieved before a table chunk the policy is \<open>compliance\<close>.
\<close>

theorem determine_prompt_type_counterexample:
  "is_table doc_table \<and> has_compliance_keyword doc_audit
   \<and> determine_prompt_type [doc_audit, doc_table] = ''compliance''
   \<and> determine_prompt_type [doc_audit, doc_table] \<noteq> ''table''"
  by code_simp

text \<open>
  Claim C5, amended.  The classifier scans the chunks in retrieval order and decides at
  the first chunk that has content type \<open>table\<close> or whose lower-cased text contains a
  compliance keyword: \<open>table\<close> if that chunk is a table (also when it contains a keyword
  as well), \<open>compliance\<close> otherwise; the general policy \<open>banking\<close> if there is no such
  chunk.  In particular the table policy is chosen whenever a table chunk is preceded
  by no chunk containing a compliance keyword.
\<close>

theorem determine_prompt_type_first_signal:
  "determine_prompt_type docs =
     (case find (\<lambda>d. is_table d \<or> has_compliance_keyword d) docs of
        None \<Rightarrow> ''banking''
      | Some d \<Rightarrow> if is_table d then ''table'' else ''compliance'')
   \<and> (is_table t \<and> (\<forall>d\<in>set pre. \<not> has_compliance_keyword d) \<longrightarrow>
        determine_prompt_type (pre @ t # post) = ''table'')"
proof
  show "determine_prompt_type docs =
     (case find (\<lambda>d. is_table d \<or> has_compliance_keyword d) docs of
        None \<Rightarrow> ''banking''
      | Some d \<Rightarrow> if is_table d then ''table'' else ''compliance'')"
    by (induction docs) auto
  show "is_table t \<and> (\<forall>d\<in>set pre. \<not> has_compliance_keyword d) \<longrightarrow>
        determine_prompt_type (pre @ t # post) = ''table''"
    by (induction pre) auto
qed

theorem determine_prompt_type_first_signal_witness:
  "is_table doc_table \<and> list_all (\<lambda>d. \<not> has_compliance_keyword d) [doc_plain]
   \<and> determine_prompt_type ([doc_plain] @ doc_table # [doc_audit]) = ''table''
   \<and> determine_prompt_type [doc_plain, doc_audit, doc_table] =
       (case find (\<lambda>d. is_table d \<or> has_compliance_keyword d) [doc_plain, doc_audit, doc_table] of
          None \<Rightarrow> ''banking''
        | Some d \<Rightarrow> if is_table d then ''table'' else ''compliance'')
   \<and> find (\<lambda>d. is_table d \<or> has_compliance_keyword d) [doc_plain, doc_audit, doc_table]
       = Some doc_audit"
proof -
  have t: "is_table doc_table" by code_simp
  have p: "\<forall>d\<in>set [doc_plain]. \<not> has_compliance_keyword d" by code_simp
  have f: "find (\<lambda>d. is_table d \<or> has_compliance_keyword d) [doc_plain, doc_audit, doc_table]
       = Some doc_audit" by code_simp
  from t p f determine_prompt_type_first_signal[of "[doc_plain, doc_audit, doc_table]"]
    determine_prompt_type_first_signal[of _ doc_table "[doc_plain]" "[doc_audit]"]
  show ?thesis by (simp add: list_all_iff)
qed

subsection \<open>Failing capabilities\<close>

text \<open>
  Claim C6 says that a query during which the embedding or the language model fails
  returns confidence \<open>error\<close> and an empty sources list.  When the language model raises,
  \<open>generate_response\<close> catches the exception and returns its text as the answer; the
  query then goes on and returns the retrieved sources and a computed confidence.
\<close>

theorem query_llm_failure_counterexample:
  "llm_invoke caps_llm_down (TablePrompt ''DOCUMENT 1: Unknown source\<newline>|a|b|'' ''What is a?'')
     = Inl (Exception ''service unavailable'')
   \<and> answer (fst (query caps_llm_down ''What is a?'' None 4 []))
       = ''Error generating response: service unavailable''
   \<and> confidence (fst (query caps_llm_down ''What is a?'' None 4 [])) = ''high''
   \<and> confidence (fst (query caps_llm_down ''What is a?'' None 4 [])) \<noteq> ''error''
   \<and> sources (fst (query caps_llm_down ''What is a?'' None 4 [])) = [metadata doc_table]
   \<and> sources (fst (query caps_llm_down ''What is a?'' None 4 [])) \<noteq> []"
  by code_simp

text \<open>
  Claim C6, amended.  When the similarity retrieval (which embeds the question) raises,
  \<open>query\<close> returns an answer that contains the error description, confidence \<open>error\<close> and
  an empty sources list.  When the language model raises while generating the answer,
  \<open>query\<close> returns the answer "Error generating response: " followed by the error
  description, the metadata of the retrieved chunks as sources, and a confidence among
  \<open>high\<close>, \<open>medium\<close>, \<open>low\<close>.  In every case \<open>query\<close> returns a result whose confidence is
  one of \<open>high\<close>, \<open>medium\<close>, \<open>low\<close>, \<open>error\<close>: no exception leaves it.
\<close>

theorem query_capability_failure:
  "(store_similarity_search caps question k filter_dict = Inl e \<longrightarrow>
      fst (query caps question filter_dict k tr) =
        \<lparr>answer = ''Error processing query: Failed to perform similarity search: ''
                    @ str_of_error e,
         sources = [], confidence = ''error'', context' = None, validation = None\<rparr>)
   \<and> (store_similarity_search caps question k filter_dict = Inr docs \<and> docs \<noteq> []
        \<and> combine_context docs = Inr ctx
        \<and> llm_invoke caps
             (if determine_prompt_type docs = ''table'' then TablePrompt ctx question
              else if determine_prompt_type docs = ''compliance''
                   then CompliancePrompt ctx question
              else BankingPrompt ctx question) = Inl e \<longrightarrow>
      answer (fst (query caps question filter_dict k tr)) =
        ''Error generating response: '' @ str_of_error e
      \<and> sources (fst (query caps question filter_dict k tr)) = map metadata docs
      \<and> confidence (fst (query caps question filter_dict k tr)) \<in> {''high'', ''medium'', ''low''})
   \<and> confidence (fst (query caps question filter_dict k tr))
       \<in> {''high'', ''medium'', ''low'', ''error''}"
proof (intro conjI impI)
  assume "store_similarity_search caps question k filter_dict = Inl e"
  then show "fst (query caps question filter_dict k tr) =
        \<lparr>answer = ''Error processing query: Failed to perform similarity search: ''
                    @ str_of_error e,
         sources = [], confidence = ''error'', context' = None, validation = None\<rparr>"
    by (simp add: query_def similarity_search_def error_result_def)
next
  assume a: "store_similarity_search caps question k filter_dict = Inr docs \<and> docs \<noteq> []
        \<and> combine_context docs = Inr ctx
        \<and> llm_invoke caps
             (if determine_prompt_type docs = ''table'' then TablePrompt ctx question
              else if determine_prompt_type docs = ''compliance''
                   then CompliancePrompt ctx question
              else BankingPrompt ctx question) = Inl e"
  then have s: "store_similarity_search caps question k filter_dict = Inr docs"
    and n: "docs \<noteq> []" and c: "combine_context docs = Inr ctx"
    and l: "llm_invoke caps
             (if determine_prompt_type docs = ''table'' then TablePrompt ctx question
              else if determine_prompt_type docs = ''compliance''
                   then CompliancePrompt ctx question
              else BankingPrompt ctx question) = Inl e"
    by blast+
  show "answer (fst (query caps question filter_dict k tr)) =
          ''Error generating response: '' @ str_of_error e"
    by (simp only: query_answer[OF s n c] fst_generate_response l) simp
  show "sources (fst (query caps question filter_dict k tr)) = map metadata docs"
    by (rule query_sources[OF s n c])
  show "confidence (fst (query caps question filter_dict k tr)) \<in> {''high'', ''medium'', ''low''}"
    using query_confidence[OF s n c, of tr] calculate_confidence_cases by metis
next
  show "confidence (fst (query caps question filter_dict k tr))
       \<in> {''high'', ''medium'', ''low'', ''error''}"
    by (rule query_confidence_cases)
qed

theorem query_capability_failure_witness:
  "store_similarity_search caps_store_down ''What is a?'' 4 None
     = Inl (Exception ''embedding failed'')
   \<and> fst (query caps_store_down ''What is a?'' None 4 []) =
        \<lparr>answer = ''Error processing query: Failed to perform similarity search: ''
                    @ str_of_error (Exception ''embedding failed''),
         sources = [], confidence = ''error'', context' = None, validation = None\<rparr>
   \<and> store_similarity_search caps_llm_down ''What is a?'' 4 None = Inr [doc_table]
   \<and> combine_context [doc_table] = Inr ''DOCUMENT 1: Unknown source\<newline>|a|b|''
   \<and> determine_prompt_type [doc_table] = ''table''
   \<and> llm_invoke caps_llm_down (TablePrompt ''DOCUMENT 1: Unknown source\<newline>|a|b|'' ''What is a?'')
       = Inl (Exception ''service unavailable'')
   \<and> answer (fst (query caps_llm_down ''What is a?'' None 4 [])) =
        ''Error generating response: '' @ str_of_error (Exception ''service unavailable'')
   \<and> sources (fst (query caps_llm_down ''What is a?'' None 4 [])) = map metadata [doc_table]
   \<and> confidence (fst (query caps_llm_down ''What is a?'' None 4 []))
        \<in> {''high'', ''medium'', ''low''}"
proof -
  have sd: "store_similarity_search caps_store_down ''What is a?'' 4 None
     = Inl (Exception ''embedding failed'')"
    by (simp add: caps_store_down_def)
  have s: "store_similarity_search caps_llm_down ''What is a?'' 4 None = Inr [doc_table]"
    by (simp add: caps_llm_down_def)
  have c: "combine_context [doc_table] = Inr ''DOCUMENT 1: Unknown source\<newline>|a|b|''"
    by code_simp
  have d: "determine_prompt_type [doc_table] = ''table''"
    by code_simp
  have l: "llm_invoke caps_llm_down
             (TablePrompt ''DOCUMENT 1: Unknown source\<newline>|a|b|'' ''What is a?'')
       = Inl (Exception ''service unavailable'')"
    by (simp add: caps_llm_down_def)
  from sd query_capability_failure[of caps_store_down "''What is a?''" 4 None
      "Exception ''embedding failed''" "[]"]
  have 1: "fst (query caps_store_down ''What is a?'' None 4 []) =
        \<lparr>answer = ''Error processing query: Failed to perform similarity search: ''
                    @ str_of_error (Exception ''embedding failed''),
         sources = [], confidence = ''error'', context' = None, validation = None\<rparr>"
    by blast
  from s c d l query_capability_failure[of caps_llm_down "''What is a?''" 4 None
      "Exception ''service unavailable''" "[]" "[doc_table]"
      "''DOCUMENT 1: Unknown source\<newline>|a|b|''"]
  have 2: "answer (fst (query caps_llm_down ''What is a?'' None 4 [])) =
        ''Error generating response: '' @ str_of_error (Exception ''service unavailable'')
   \<and> sources (fst (query caps_llm_down ''What is a?'' None 4 [])) = map metadata [doc_table]
   \<and> confidence (fst (query caps_llm_down ''What is a?'' None 4 []))
        \<in> {''high'', ''medium'', ''low''}"
    by simp
  from sd s c d l 1 2 show ?thesis by blast
qed

subsection \<open>Composition of the context\<close>

lemma split_last_suffix:
  "sep \<in> set p \<Longrightarrow> \<exists>pre. p = pre @ sep # split_last sep p"
proof (induction p)
  case Nil then show ?case by simp
next
  case (Cons c cs)
  show ?case
  proof (cases "sep \<in> set cs")
    case True
    with Cons.IH obtain pre where "cs = pre @ sep # split_last sep cs" by blast
    then have "c # cs = (c # pre) @ sep # split_last sep (c # cs)" using True by simp
    then show ?thesis by blast
  next
    case False
    with Cons.prems have "c = sep" by simp
    then have "c # cs = [] @ sep # split_last sep (c # cs)" using False by simp
    then show ?thesis by blast
  qed
qed

lemma split_last_no_sep: "sep \<notin> set (split_last sep p)"
  by (induction p) auto

lemma context_parts_nth:
  "context_parts i docs = Inr parts \<Longrightarrow>
     length parts = length docs \<and>
     (\<forall>j<length docs. formatted_content (i + j) (docs ! j) = Inr (parts ! j))"
proof (induction docs arbitrary: i parts)
  case Nil then show ?case by simp
next
  case (Cons d ds)
  from Cons.prems obtain part rest where
    p: "formatted_content i d = Inr part" and r: "context_parts (Suc i) ds = Inr rest"
    and e: "parts = part # rest"
    by (auto split: sum.splits)
  from Cons.IH[OF r] have l: "length rest = length ds"
    and n: "\<forall>j<length ds. formatted_content (Suc i + j) (ds ! j) = Inr (rest ! j)" by blast+
  show ?case
  proof (intro conjI allI impI)
    show "length parts = length (d # ds)" using l e by simp
  next
    fix j assume "j < length (d # ds)"
    then show "formatted_content (i + j) ((d # ds) ! j) = Inr (parts ! j)"
      using p n e by (cases j) auto
  qed
qed

lemma formatted_content_Inr:
  "formatted_content i doc = Inr part \<Longrightarrow>
   \<exists>label. source_label (metadata doc) = Inr label \<and>
     part = ''DOCUMENT '' @ str_nat i @ '': '' @ label @ page_suffix (metadata doc)
            @ ''\<newline>'' @ strip (page_content doc)"
  by (auto simp: formatted_content_def source_info_def split: sum.splits)

lemma source_label_defined:
  assumes "\<forall>n. map_of md ''file_path'' \<noteq> Some (PyInt n)"
  shows "\<exists>label. source_label md = Inr label"
proof (cases "map_of md ''file_path''")
  case None
  then show ?thesis by (cases "map_of md ''source''") (simp_all add: source_label_def)
next
  case (Some v)
  with assms obtain p where "v = PyStr p" by (cases v) auto
  with Some show ?thesis by (simp add: source_label_def)
qed

lemma context_parts_defined:
  "\<forall>d\<in>set docs. \<forall>n. map_of (metadata d) ''file_path'' \<noteq> Some (PyInt n) \<Longrightarrow>
   \<exists>parts. context_parts i docs = Inr parts"
proof (induction docs arbitrary: i)
  case Nil then show ?case by simp
next
  case (Cons d ds)
  from Cons.prems have "\<forall>d\<in>set ds. \<forall>n. map_of (metadata d) ''file_path'' \<noteq> Some (PyInt n)"
    by simp
  from Cons.IH[OF this, of "Suc i"] obtain rest where r: "context_parts (Suc i) ds = Inr rest"
    by blast
  from Cons.prems have "\<forall>n. map_of (metadata d) ''file_path'' \<noteq> Some (PyInt n)" by simp
  from source_label_defined[OF this] obtain label where "source_label (metadata d) = Inr label"
    by blast
  then obtain part where "formatted_content i d = Inr part"
    by (simp add: formatted_content_def source_info_def)
  with r show ?case by simp
qed

subsection \<open>Confidence labels\<close>







subsection \<open>Deletion by source\<close>

lemma make_documents_none_match:
  "\<forall>e\<in>set es. \<exists>d. mk e = Inr d \<and> \<not> P d \<Longrightarrow>
   \<exists>docs. make_documents mk es = Inr docs \<and> filter P docs = []"
proof (induction es)
  case Nil
  then show ?case by simp
next
  case (Cons e es)
  from Cons.prems obtain d where d: "mk e = Inr d" "\<not> P d" by auto
  from Cons.prems have "\<forall>e\<in>set es. \<exists>d. mk e = Inr d \<and> \<not> P d" by simp
  from Cons.IH[OF this] obtain docs where "make_documents mk es = Inr docs" "filter P docs = []"
    by blast
  with d show ?case by simp
qed

text \<open>
  Claim C7.  Deleting by source is to remove exactly the stored chunks of the source
  path \<open>p\<close>, so that afterwards no chunk of \<open>p\<close> is found and the entry count has gone
  down by the number of chunks of \<open>p\<close>.  \<open>delete_documents_by_source\<close> looks for the
  chunks of \<open>p\<close> among the documents that \<open>get_all_documents\<close> hands it, and these are
  the first 1000 stored entries only.  Whenever none of the first 1000 entries belongs
  to \<open>p\<close>, the store is asked to delete nothing and its state stays as it was, whatever
  is stored after them: a chunk of \<open>p\<close> stored after 1000 other chunks survives the
  deletion.
\<close>

theorem delete_by_source_skips_beyond_limit:
  assumes "store_get ops st = Inr entries"
    and "\<forall>e\<in>set (take 1000 entries). \<exists>d. make_document ops e = Inr d \<and> \<not> has_file_path p d"
  shows "delete_documents_by_source ops st p = (Inr None, st)"
proof -
  from make_documents_none_match[OF assms(2)] obtain docs where
    m: "make_documents (make_document ops) (take 1000 entries) = Inr docs"
    and f: "filter (has_file_path p) docs = []" by blast
  from assms(1) m have "get_all_documents ops st 1000 = Inr docs"
    by (simp add: get_all_documents_def)
  with f show ?thesis by (simp add: delete_documents_by_source_def)
qed

theorem delete_by_source_skips_beyond_limit_witness:
  "store_get list_store (replicate 1000 doc_plain @ [doc_loaded])
     = Inr (replicate 1000 doc_plain @ [doc_loaded])
   \<and> list_all (\<lambda>e. \<exists>d. make_document list_store e = Inr d \<and> \<not> has_file_path ''docs/fees.pdf'' d)
        (take 1000 (replicate 1000 doc_plain @ [doc_loaded]))
   \<and> has_file_path ''docs/fees.pdf'' doc_loaded
   \<and> doc_loaded \<in> set (replicate 1000 doc_plain @ [doc_loaded])
   \<and> delete_documents_by_source list_store (replicate 1000 doc_plain @ [doc_loaded])
        ''docs/fees.pdf''
       = (Inr None, replicate 1000 doc_plain @ [doc_loaded])"
proof -
  have g: "store_get list_store (replicate 1000 doc_plain @ [doc_loaded])
     = Inr (replicate 1000 doc_plain @ [doc_loaded])"
    by (simp add: list_store_def)
  have p: "\<not> has_file_path ''docs/fees.pdf'' doc_plain" by code_simp
  have q: "has_file_path ''docs/fees.pdf'' doc_loaded" by code_simp
  have t: "\<And>n x ys. take n (replicate n x @ ys) = replicate n (x::document)" by simp
  have tk: "take 1000 (replicate 1000 doc_plain @ [doc_loaded]) = replicate 1000 doc_plain"
    by (rule t)
  have mk: "\<exists>d. make_document list_store doc_plain = Inr d \<and> \<not> has_file_path ''docs/fees.pdf'' d"
    using p by (simp add: list_store_def)
  have a: "\<forall>e\<in>set (take 1000 (replicate 1000 doc_plain @ [doc_loaded])).
             \<exists>d. make_document list_store e = Inr d \<and> \<not> has_file_path ''docs/fees.pdf'' d"
    unfolding tk using mk by (auto simp only: set_replicate_conv_if split: if_splits)
  have la: "list_all (\<lambda>e. \<exists>d. make_document list_store e = Inr d
                         \<and> \<not> has_file_path ''docs/fees.pdf'' d)
        (take 1000 (replicate 1000 doc_plain @ [doc_loaded]))"
    using a by (simp only: list_all_iff)
  have m: "doc_loaded \<in> set (replicate 1000 doc_plain @ [doc_loaded])"
    by (simp only: set_append list.set Un_iff insert_iff simp_thms)
  note r = delete_by_source_skips_beyond_limit[OF g a]
  show ?thesis
    by (intro conjI) (rule g la q m r)+
qed

text \<open>
  When the delete of the store raises, \<open>delete_documents_by_source\<close> raises in turn and
  the chunks of \<open>p\<close> stay stored.
\<close>

lemma delete_by_source_store_raises:
  assumes "get_all_documents ops st 1000 = Inr docs"
    and "filter (has_file_path p) docs \<noteq> []"
    and "store_delete ops (filter (has_file_path p) docs) st = Inl e"
  shows "delete_documents_by_source ops st p =
           (Inl (Exception (''Failed to delete documents by source: '' @ str_of_error e)), st)"
  using assms by (simp add: delete_documents_by_source_def)

end
